theory Spec2Isabelle
  imports Main "HOL-Library.Product_Lexorder" "HOL-Library.Multiset"
begin

section \<open>Data model of \<open>app.py\<close>\<close>

text \<open>
  Python dictionaries keep their keys in insertion order, and two functions of the
  program depend on that order (\<open>Game.make_guess\<close> stops at the first matching
  assignment, \<open>handle_disconnect\<close> at the first room that holds the connection, and
  \<open>sorted\<close> is stable). A dictionary is therefore an association list in insertion
  order. Storing under an existing key keeps the key's position, storing under a new key
  appends, \<open>del\<close> removes the entry.
\<close>

type_synonym ('k, 'v) dict = "('k \<times> 'v) list"

fun dict_get :: "('k, 'v) dict \<Rightarrow> 'k \<Rightarrow> 'v option" where
  "dict_get [] k = None"
| "dict_get ((k', v) # d) k = (if k' = k then Some v else dict_get d k)"

definition dict_in :: "'k \<Rightarrow> ('k, 'v) dict \<Rightarrow> bool" where
  "dict_in k d = (dict_get d k \<noteq> None)"

fun dict_set :: "'k \<Rightarrow> 'v \<Rightarrow> ('k, 'v) dict \<Rightarrow> ('k, 'v) dict" where
  "dict_set k v [] = [(k, v)]"
| "dict_set k v ((k', v') # d) = (if k' = k then (k, v) # d else (k', v') # dict_set k v d)"

fun dict_del :: "'k \<Rightarrow> ('k, 'v) dict \<Rightarrow> ('k, 'v) dict" where
  "dict_del k [] = []"
| "dict_del k ((k', v) # d) = (if k' = k then dict_del k d else (k', v) # dict_del k d)"

text \<open>Every dictionary of the program starts empty and changes only through the three
  operations above, so its keys are distinct; then \<open>len\<close> is the length of the list.\<close>

definition dict_ok :: "('k, 'v) dict \<Rightarrow> bool" where
  "dict_ok d = distinct (map fst d)"

text \<open>
  Connection identifiers, room codes and display names are Python strings. Time stamps
  (\<open>datetime.now()\<close>) are read from the clock; the model takes the value read as an
  argument \<open>now\<close>, a natural number of clock ticks, compared as the program compares
  \<open>datetime\<close> values.
\<close>

record player =
  name :: string
  joined_at :: nat

record completion =
  timestamp :: nat
  guess_count :: nat
  santa :: string

record game =
  host_id :: string
  players :: "(string, player) dict"
  assignments :: "(string, string) dict"
  guesses :: "(string, string list) dict"
  completed :: "(string, completion) dict"
  started :: bool

datatype error = KeyError string

text \<open>One row of the list \<open>Game.get_leaderboard\<close> returns (keys \<open>rank\<close>, \<open>player\<close>,
  \<open>guesses\<close>, \<open>santa\<close>).\<close>

record row =
  rank :: nat
  player :: string
  guesses_row :: nat
  santa_row :: string

section \<open>The class \<open>Game\<close>\<close>

definition Game_init :: "string \<Rightarrow> game" where
  "Game_init host =
     \<lparr>host_id = host, players = [], assignments = [], guesses = [], completed = [],
      started = False\<rparr>"

definition add_player :: "game \<Rightarrow> string \<Rightarrow> string \<Rightarrow> nat \<Rightarrow> game" where
  "add_player g sid nm now =
     g\<lparr>players := dict_set sid \<lparr>name = nm, joined_at = now\<rparr> (players g),
       guesses := dict_set nm [] (guesses g)\<rparr>"

definition remove_player :: "game \<Rightarrow> string \<Rightarrow> game" where
  "remove_player g sid =
     (case dict_get (players g) sid of
        None \<Rightarrow> g
      | Some p \<Rightarrow>
          let nm = name p;
              g1 = g\<lparr>players := dict_del sid (players g)\<rparr>;
              g2 = (if dict_in nm (guesses g1)
                    then g1\<lparr>guesses := dict_del nm (guesses g1)\<rparr> else g1);
              g3 = (if dict_in nm (assignments g2)
                    then g2\<lparr>assignments := dict_del nm (assignments g2)\<rparr> else g2)
          in (if dict_in nm (completed g3)
              then g3\<lparr>completed := dict_del nm (completed g3)\<rparr> else g3))"

definition set_assignment :: "game \<Rightarrow> string \<Rightarrow> string \<Rightarrow> game" where
  "set_assignment g player_name got_name =
     g\<lparr>assignments := dict_set player_name got_name (assignments g)\<rparr>"

text \<open>The loop of \<open>make_guess\<close> over \<open>self.assignments.items()\<close>: the key of the first
  entry whose value is the player, \<open>None\<close> when there is none.\<close>

fun actual_santa :: "(string, string) dict \<Rightarrow> string \<Rightarrow> string option" where
  "actual_santa [] player_name = None"
| "actual_santa ((santa', recipient) # rest) player_name =
     (if recipient = player_name then Some santa' else actual_santa rest player_name)"

text \<open>\<open>self.guesses[player_name]\<close> raises \<open>KeyError\<close> for a name without a guess list,
  before anything is changed. The guess is a string, so it equals \<open>actual_santa\<close> only
  when a santa was found.\<close>

definition make_guess :: "game \<Rightarrow> string \<Rightarrow> string \<Rightarrow> nat \<Rightarrow> error + (bool \<times> game)" where
  "make_guess g player_name guessed_santa now =
     (case dict_get (guesses g) player_name of
        None \<Rightarrow> Inl (KeyError player_name)
      | Some log \<Rightarrow>
          let log' = log @ [guessed_santa];
              g1 = g\<lparr>guesses := dict_set player_name log' (guesses g)\<rparr>
          in (if actual_santa (assignments g1) player_name = Some guessed_santa
              then Inr (True,
                     g1\<lparr>completed :=
                          dict_set player_name
                            \<lparr>timestamp = now, guess_count = length log',
                             santa = guessed_santa\<rparr>
                            (completed g1)\<rparr>)
              else Inr (False, g1)))"

definition sort_key_of :: "string \<times> completion \<Rightarrow> nat \<times> nat" where
  "sort_key_of x = (guess_count (snd x), timestamp (snd x))"

text \<open>\<open>sorted\<close> is stable, as \<open>sort_key\<close> is; pairs are compared lexicographically.\<close>

definition sorted_completed :: "game \<Rightarrow> (string \<times> completion) list" where
  "sorted_completed g = sort_key sort_key_of (completed g)"

definition get_leaderboard :: "game \<Rightarrow> row list" where
  "get_leaderboard g =
     map (\<lambda>(i, (p, data)).
            \<lparr>rank = i + 1, player = p, guesses_row = guess_count data,
             santa_row = santa data\<rparr>)
         (enumerate 0 (sorted_completed g))"

definition is_complete :: "game \<Rightarrow> bool" where
  "is_complete g =
     (if players g \<noteq> [] then length (completed g) = length (players g) else False)"

section \<open>The Socket.IO event handlers\<close>

text \<open>
  The registry \<open>games\<close> is a dictionary from room code to game; a handler takes it and
  returns the new registry with the list of events it emits, in order. An event goes to
  the requesting connection (\<open>emit\<close> without \<open>room\<close>) or to a room. A \<open>Game\<close> object
  is shared between the registry and the handler that changes it, so the changed game is
  stored back under its room code. Which connections listen to a room (\<open>join_room\<close> of
  Flask-SocketIO) belongs to the transport and is not part of the model. Payloads are taken
  apart into their fields, all present and all strings.
\<close>

datatype audience = To_requester | To_room string

datatype out_event =
    Error_event string
  | Game_created string
  | Joined_game string string
  | Player_list_update "string list" nat
  | Assignment_submitted string nat nat bool
  | Game_started string
  | Guess_result bool string nat
  | Player_completed string string nat nat
  | Leaderboard_update "row list" bool
  | Game_state "string list" bool "row list" bool
  | Player_disconnected string

type_synonym emits = "(audience \<times> out_event) list"

type_synonym registry = "(string, game) dict"

text \<open>
  \<open>str.upper\<close> on ASCII text: the letters \<open>a\<close> to \<open>z\<close> become \<open>A\<close> to \<open>Z\<close>. The model's
  characters are bytes and it leaves every other byte as it is; no theorem below depends
  on what \<open>upper\<close> does outside ASCII.
\<close>

definition upper_char :: "char \<Rightarrow> char" where
  "upper_char c =
     (let n = (of_char c :: nat) in if 97 \<le> n \<and> n \<le> 122 then char_of (n - 32) else c)"

definition upper :: "string \<Rightarrow> string" where
  "upper s = map upper_char s"

text \<open>
  \<open>generate_code\<close> draws a random code. The model takes the sequence of codes drawn as an
  argument; the \<open>while\<close> loop of \<open>handle_create_game\<close> goes through it until a code is
  not in the registry, and yields \<open>None\<close> when every draw given is taken.
\<close>

fun pick_code :: "string list \<Rightarrow> registry \<Rightarrow> string option" where
  "pick_code [] games = None"
| "pick_code (room_code # draws) games =
     (if dict_in room_code games then pick_code draws games else Some room_code)"

definition handle_create_game :: "string \<Rightarrow> string list \<Rightarrow> registry \<Rightarrow> (registry \<times> emits) option" where
  "handle_create_game sid draws games =
     (case pick_code draws games of
        None \<Rightarrow> None
      | Some room_code \<Rightarrow>
          Some (dict_set room_code (Game_init sid) games,
                [(To_requester, Game_created room_code)]))"

definition player_names :: "game \<Rightarrow> string list" where
  "player_names g = map (\<lambda>kv. name (snd kv)) (players g)"

definition handle_join_game :: "string \<Rightarrow> nat \<Rightarrow> string \<Rightarrow> string \<Rightarrow> registry \<Rightarrow> registry \<times> emits" where
  "handle_join_game sid now room_code0 player_name games =
     (let room_code = upper room_code0 in
      case dict_get games room_code of
        None \<Rightarrow> (games, [(To_requester, Error_event ''Game not found'')])
      | Some g \<Rightarrow>
          if started g then (games, [(To_requester, Error_event ''Game already started'')])
          else if player_name \<in> set (player_names g)
          then (games, [(To_requester, Error_event ''Name already taken'')])
          else
            let g' = add_player g sid player_name now;
                player_list = player_names g'
            in (dict_set room_code g' games,
                [(To_requester, Joined_game room_code player_name),
                 (To_room room_code, Player_list_update player_list (length player_list))]))"

definition handle_submit_assignment :: "string \<Rightarrow> string \<Rightarrow> string \<Rightarrow> registry \<Rightarrow> registry \<times> emits" where
  "handle_submit_assignment room_code player_name got_name games =
     (case dict_get games room_code of
        None \<Rightarrow> (games, [(To_requester, Error_event ''Game not found'')])
      | Some g \<Rightarrow>
          let g' = set_assignment g player_name got_name;
              all_assigned = (length (assignments g') = length (players g'))
          in (dict_set room_code g' games,
              [(To_room room_code,
                Assignment_submitted player_name (length (players g'))
                  (length (assignments g')) all_assigned)]))"

definition handle_start_game :: "string \<Rightarrow> string \<Rightarrow> registry \<Rightarrow> registry \<times> emits" where
  "handle_start_game sid room_code games =
     (case dict_get games room_code of
        None \<Rightarrow> (games, [(To_requester, Error_event ''Game not found'')])
      | Some g \<Rightarrow>
          if sid \<noteq> host_id g
          then (games, [(To_requester, Error_event ''Only host can start game'')])
          else if length (assignments g) \<noteq> length (players g)
          then (games,
                [(To_requester, Error_event ''Not all players have submitted assignments'')])
          else (dict_set room_code (g\<lparr>started := True\<rparr>) games,
                [(To_room room_code,
                  Game_started ''Game has started! Guess who your Secret Santa is!'')]))"

text \<open>\<open>handle_make_guess\<close> does not catch the \<open>KeyError\<close> of \<open>Game.make_guess\<close>: the
  handler then ends with the exception, having emitted nothing.\<close>

text \<open>\<open>len(game.guesses[player_name])\<close> after \<open>make_guess\<close> has returned; the list exists
  then, so the \<open>None\<close> case is never taken.\<close>

definition attempts :: "game \<Rightarrow> string \<Rightarrow> nat" where
  "attempts g player_name =
     (case dict_get (guesses g) player_name of None \<Rightarrow> 0 | Some log \<Rightarrow> length log)"

definition handle_make_guess :: "nat \<Rightarrow> string \<Rightarrow> string \<Rightarrow> string \<Rightarrow> registry \<Rightarrow> error + (registry \<times> emits)" where
  "handle_make_guess now room_code player_name guessed_santa games =
     (case dict_get games room_code of
        None \<Rightarrow> Inr (games, [(To_requester, Error_event ''Game not found'')])
      | Some g \<Rightarrow>
          if \<not> started g
          then Inr (games, [(To_requester, Error_event ''Game not started yet'')])
          else if dict_in player_name (completed g)
          then Inr (games, [(To_requester, Error_event ''You already found your Santa!'')])
          else
            (case make_guess g player_name guessed_santa now of
               Inl e \<Rightarrow> Inl e
             | Inr (is_correct, g') \<Rightarrow>
                 Inr (dict_set room_code g' games,
                      (To_requester,
                       Guess_result is_correct guessed_santa (attempts g' player_name))
                      # (if is_correct
                         then [(To_room room_code,
                                Player_completed player_name guessed_santa
                                  (attempts g' player_name) (length (completed g'))),
                               (To_room room_code,
                                Leaderboard_update (get_leaderboard g') (is_complete g'))]
                         else []))))"

definition handle_get_game_state :: "string \<Rightarrow> registry \<Rightarrow> registry \<times> emits" where
  "handle_get_game_state room_code games =
     (case dict_get games room_code of
        None \<Rightarrow> (games, [(To_requester, Error_event ''Game not found'')])
      | Some g \<Rightarrow>
          (games,
           [(To_requester,
             Game_state (player_names g) (started g) (get_leaderboard g) (is_complete g))]))"

text \<open>The loop of \<open>handle_disconnect\<close> over \<open>list(games.items())\<close>: the first room whose
  \<open>players\<close> holds the connection, with the player's entry; the loop ends there
  (\<open>break\<close>).\<close>

fun find_room :: "string \<Rightarrow> registry \<Rightarrow> (string \<times> game \<times> player) option" where
  "find_room sid [] = None"
| "find_room sid ((room_code, g) # rest) =
     (case dict_get (players g) sid of
        Some p \<Rightarrow> Some (room_code, g, p)
      | None \<Rightarrow> find_room sid rest)"

definition handle_disconnect :: "string \<Rightarrow> registry \<Rightarrow> registry \<times> emits" where
  "handle_disconnect sid games =
     (case find_room sid games of
        None \<Rightarrow> (games, [])
      | Some (room_code, g, p) \<Rightarrow>
          let player_name = name p;
              g' = remove_player g sid;
              player_list = player_names g';
              out = [(To_room room_code, Player_list_update player_list (length player_list)),
                     (To_room room_code, Player_disconnected player_name)]
          in (if length (players g') = 0
              then (dict_del room_code games, out)
              else (dict_set room_code g' games, out)))"

section \<open>Runs of the server\<close>

text \<open>An inbound event with its payload, the connection it comes from, and what the
  handler reads from the clock or the random source.\<close>

datatype inbound =
    Create_game string "string list"
  | Join_game string nat string string
  | Submit_assignment string string string
  | Start_game string string
  | Make_guess nat string string string
  | Get_game_state string
  | Disconnect string

text \<open>The registry after one event. A handler that ends with an exception leaves the
  registry as it was when the exception was raised.\<close>

fun step :: "inbound \<Rightarrow> registry \<Rightarrow> registry option" where
  "step (Create_game sid draws) games = map_option fst (handle_create_game sid draws games)"
| "step (Join_game sid now room_code player_name) games =
     Some (fst (handle_join_game sid now room_code player_name games))"
| "step (Submit_assignment room_code player_name got_name) games =
     Some (fst (handle_submit_assignment room_code player_name got_name games))"
| "step (Start_game sid room_code) games = Some (fst (handle_start_game sid room_code games))"
| "step (Make_guess now room_code player_name guessed_santa) games =
     (case handle_make_guess now room_code player_name guessed_santa games of
        Inl e \<Rightarrow> Some games
      | Inr r \<Rightarrow> Some (fst r))"
| "step (Get_game_state room_code) games = Some (fst (handle_get_game_state room_code games))"
| "step (Disconnect sid) games = Some (fst (handle_disconnect sid games))"

fun run :: "inbound list \<Rightarrow> registry \<Rightarrow> registry option" where
  "run [] games = Some games"
| "run (ev # evs) games =
     (case step ev games of None \<Rightarrow> None | Some games' \<Rightarrow> run evs games')"

section \<open>Preconditions and scenario states\<close>

text \<open>The precondition of the spec's \<open>start_room\<close> row: the room exists, the requester is
  the host, and there are as many assignments as members.\<close>

definition can_start :: "string \<Rightarrow> string \<Rightarrow> registry \<Rightarrow> bool" where
  "can_start sid room_code games =
     (case dict_get games room_code of
        None \<Rightarrow> False
      | Some g \<Rightarrow> sid = host_id g \<and> length (assignments g) = length (players g))"

definition lobby_game :: game where
  "lobby_game =
     \<lparr>host_id = ''h'',
      players = [(''a'', \<lparr>name = ''Alice'', joined_at = 1\<rparr>),
                 (''b'', \<lparr>name = ''Bob'', joined_at = 2\<rparr>)],
      assignments = [(''Alice'', ''Bob'')],
      guesses = [(''Alice'', []), (''Bob'', [])],
      completed = [],
      started = False\<rparr>"

definition ready_game :: game where
  "ready_game = lobby_game\<lparr>assignments := [(''Alice'', ''Bob''), (''Bob'', ''Alice'')]\<rparr>"

definition active_game :: game where
  "active_game =
     ready_game\<lparr>guesses := [(''Alice'', []), (''Bob'', [''Carol'', ''Dave''])],
                started := True\<rparr>"

definition done_game :: game where
  "done_game =
     active_game\<lparr>guesses := [(''Alice'', []), (''Bob'', [''Carol'', ''Dave'', ''Alice''])],
                 completed := [(''Bob'', \<lparr>timestamp = 7, guess_count = 3, santa = ''Alice''\<rparr>)]\<rparr>"

definition solo_game :: game where
  "solo_game =
     \<lparr>host_id = ''h'',
      players = [(''a'', \<lparr>name = ''Alice'', joined_at = 1\<rparr>)],
      assignments = [],
      guesses = [(''Alice'', [])],
      completed = [],
      started = False\<rparr>"

definition two_santas_game :: game where
  "two_santas_game =
     \<lparr>host_id = ''h'',
      players = [(''a'', \<lparr>name = ''Alice'', joined_at = 1\<rparr>),
                 (''b'', \<lparr>name = ''Bob'', joined_at = 2\<rparr>),
                 (''c'', \<lparr>name = ''Carol'', joined_at = 3\<rparr>)],
      assignments = [(''Alice'', ''Carol''), (''Bob'', ''Carol''), (''Carol'', ''Alice'')],
      guesses = [(''Alice'', []), (''Bob'', []), (''Carol'', [])],
      completed = [],
      started = True\<rparr>"

definition tie_game :: game where
  "tie_game =
     ready_game\<lparr>guesses := [(''Alice'', [''Bob'']), (''Bob'', [''Alice''])],
                completed := [(''Alice'', \<lparr>timestamp = 5, guess_count = 1, santa = ''Bob''\<rparr>),
                              (''Bob'', \<lparr>timestamp = 5, guess_count = 1, santa = ''Alice''\<rparr>)],
                started := True\<rparr>"

definition ranked_game :: game where
  "ranked_game =
     ready_game\<lparr>guesses := [(''Alice'', [''Carol'', ''Bob'']), (''Bob'', [''Alice''])],
                completed := [(''Alice'', \<lparr>timestamp = 9, guess_count = 2, santa = ''Bob''\<rparr>),
                              (''Bob'', \<lparr>timestamp = 7, guess_count = 1, santa = ''Alice''\<rparr>)],
                started := True\<rparr>"

definition carol_game :: game where
  "carol_game =
     \<lparr>host_id = ''h3'',
      players = [(''c'', \<lparr>name = ''Carol'', joined_at = 4\<rparr>)],
      assignments = [],
      guesses = [(''Carol'', [])],
      completed = [],
      started = False\<rparr>"

text \<open>The \<open>players\<close> dictionary of every room has distinct keys.\<close>

definition players_ok :: "registry \<Rightarrow> bool" where
  "players_ok games = (\<forall>e \<in> set games. dict_ok (players (snd e)))"

section \<open>Facts about dictionaries\<close>

lemmas handler_defs =
  handle_create_game_def handle_join_game_def handle_submit_assignment_def
  handle_start_game_def handle_make_guess_def handle_disconnect_def make_guess_def
  set_assignment_def add_player_def remove_player_def player_names_def Game_init_def
  attempts_def dict_in_def Let_def

lemma upper_abc123: "upper ''abc123'' = ''ABC123''"
  by code_simp

lemma upper_ABC123: "upper ''ABC123'' = ''ABC123''"
  by code_simp

lemma dict_get_set: "dict_get (dict_set k v d) k' = (if k' = k then Some v else dict_get d k')"
  by (induction d) auto

lemma dict_get_del: "dict_get (dict_del k d) k' = (if k' = k then None else dict_get d k')"
  by (induction d) auto

lemma dict_in_keys: "dict_in k d \<longleftrightarrow> k \<in> fst ` set d"
  unfolding dict_in_def by (induction d) auto

lemma dict_get_mem: "dict_get d k = Some v \<Longrightarrow> (k, v) \<in> set d"
  by (induction d) (auto split: if_splits)

lemma keys_dict_set: "fst ` set (dict_set k v d) = insert k (fst ` set d)"
proof (rule set_eqI)
  fix x
  have "x \<in> fst ` set (dict_set k v d) \<longleftrightarrow> dict_in x (dict_set k v d)"
    by (simp add: dict_in_keys)
  also have "\<dots> \<longleftrightarrow> x = k \<or> dict_in x d"
    by (simp add: dict_in_def dict_get_set)
  finally show "x \<in> fst ` set (dict_set k v d) \<longleftrightarrow> x \<in> insert k (fst ` set d)"
    by (simp add: dict_in_keys)
qed

lemma keys_dict_del: "fst ` set (dict_del k d) = fst ` set d - {k}"
proof (rule set_eqI)
  fix x
  have "x \<in> fst ` set (dict_del k d) \<longleftrightarrow> dict_in x (dict_del k d)"
    by (simp add: dict_in_keys)
  also have "\<dots> \<longleftrightarrow> x \<noteq> k \<and> dict_in x d"
    by (simp add: dict_in_def dict_get_del)
  finally show "x \<in> fst ` set (dict_del k d) \<longleftrightarrow> x \<in> fst ` set d - {k}"
    by (auto simp: dict_in_keys)
qed

lemma length_dict_set:
  "length (dict_set k v d) = (if dict_in k d then length d else Suc (length d))"
  by (induction d) (auto simp: dict_in_def split: if_splits)

lemma dict_ok_set: "dict_ok d \<Longrightarrow> dict_ok (dict_set k v d)"
proof (induction d)
  case Nil
  then show ?case by (simp add: dict_ok_def)
next
  case (Cons e d)
  obtain a b where e: "e = (a, b)" by (cases e)
  from Cons e show ?case
    by (auto simp: dict_ok_def keys_dict_set)
qed

lemma dict_ok_del: "dict_ok d \<Longrightarrow> dict_ok (dict_del k d)"
proof (induction d)
  case Nil
  then show ?case by simp
next
  case (Cons e d)
  obtain a b where e: "e = (a, b)" by (cases e)
  from Cons e show ?case
    by (auto simp: dict_ok_def keys_dict_del)
qed

lemma dict_del_absent: "\<not> dict_in k d \<Longrightarrow> dict_del k d = d"
  unfolding dict_in_def by (induction d) (auto split: if_splits)

lemma dict_del_Nil_keys: "dict_del k d = [] \<Longrightarrow> fst ` set d \<subseteq> {k}"
proof (induction d)
  case Nil
  then show ?case by simp
next
  case (Cons e d)
  obtain a b where e: "e = (a, b)" by (cases e)
  from Cons.prems e have "a = k" and "dict_del k d = []"
    by (simp_all split: if_splits)
  with Cons.IH e show ?case by simp
qed

lemma dict_del_last:
  assumes "dict_ok d" and "dict_get d k = Some v"
  shows "dict_del k d = [] \<longleftrightarrow> length d = 1"
proof
  assume "dict_del k d = []"
  then have "set (map fst d) \<subseteq> {k}"
    using dict_del_Nil_keys[of k d] by simp
  then have "card (set (map fst d)) \<le> card {k}"
    by (intro card_mono) simp_all
  moreover from assms(1) have "card (set (map fst d)) = length d"
    using distinct_card[of "map fst d"] by (simp add: dict_ok_def)
  ultimately have "length d \<le> 1" by simp
  moreover from assms(2) have "d \<noteq> []" by auto
  ultimately show "length d = 1" by (cases d) auto
next
  assume "length d = 1"
  then obtain e where "d = [e]" by (cases d) auto
  with assms(2) show "dict_del k d = []" by (cases e) (auto split: if_splits)
qed

section \<open>Creating a room\<close>

lemma pick_code_fresh:
  "\<exists>c \<in> set draws. \<not> dict_in c games \<Longrightarrow>
   \<exists>room_code. pick_code draws games = Some room_code \<and> room_code \<in> set draws
     \<and> \<not> dict_in room_code games"
  by (induction draws) auto

text \<open>
  Claim C10. Whenever one of the drawn codes is free, \<open>handle_create_game\<close> returns: it
  stores under a code that was free a game with empty \<open>players\<close>, \<open>assignments\<close>,
  \<open>guesses\<close> and \<open>completed\<close> and \<open>started = False\<close>. The requesting connection is the
  game's \<open>host_id\<close> and not one of its players, so the new room has zero members. Every
  other room is as before, and the code goes to the requester.
\<close>

theorem handle_create_game_empty_room:
  assumes "\<exists>c \<in> set draws. \<not> dict_in c games"
  shows "\<exists>room_code games' g.
           handle_create_game sid draws games
             = Some (games', [(To_requester, Game_created room_code)])
         \<and> \<not> dict_in room_code games
         \<and> dict_get games' room_code = Some g
         \<and> host_id g = sid \<and> players g = [] \<and> assignments g = [] \<and> guesses g = []
         \<and> completed g = [] \<and> \<not> started g
         \<and> \<not> dict_in sid (players g) \<and> length (players g) = 0
         \<and> (\<forall>rc. rc \<noteq> room_code \<longrightarrow> dict_get games' rc = dict_get games rc)"
proof -
  from pick_code_fresh[OF assms] obtain room_code where
    rc: "pick_code draws games = Some room_code" "\<not> dict_in room_code games"
    by blast
  let ?g = "Game_init sid"
  let ?games' = "dict_set room_code ?g games"
  have "handle_create_game sid draws games
          = Some (?games', [(To_requester, Game_created room_code)])"
    using rc(1) by (simp add: handle_create_game_def)
  moreover have "dict_get ?games' room_code = Some ?g"
    by (simp add: dict_get_set)
  moreover have "\<forall>rc. rc \<noteq> room_code \<longrightarrow> dict_get ?games' rc = dict_get games rc"
    by (simp add: dict_get_set)
  moreover have "host_id ?g = sid \<and> players ?g = [] \<and> assignments ?g = [] \<and> guesses ?g = []
      \<and> completed ?g = [] \<and> \<not> started ?g \<and> \<not> dict_in sid (players ?g)
      \<and> length (players ?g) = 0"
    by (simp add: Game_init_def dict_in_def)
  ultimately show ?thesis using rc(2) by blast
qed

theorem handle_create_game_empty_room_witness:
  "(\<exists>c \<in> set [''ABC123'']. \<not> dict_in c [(''XYZ789'', ready_game)])
   \<and> (\<exists>room_code games' g.
         handle_create_game ''h2'' [''ABC123''] [(''XYZ789'', ready_game)]
           = Some (games', [(To_requester, Game_created room_code)])
       \<and> dict_get games' room_code = Some g \<and> host_id g = ''h2'' \<and> players g = []
       \<and> \<not> started g)"
proof -
  have h: "\<exists>c \<in> set [''ABC123'']. \<not> dict_in c [(''XYZ789'', ready_game)]"
    by (simp add: dict_in_def)
  from handle_create_game_empty_room[OF h, of "''h2''"] h show ?thesis
    by blast
qed

section \<open>Starting a room\<close>

text \<open>
  Claim C2. When the room exists, the requester is the host and there are as many
  assignments as players, \<open>handle_start_game\<close> sets \<open>started\<close> of that room and tells the
  room. When one of the three fails, the registry is unchanged and the only event is an
  error to the requester: \<open>Only host can start game\<close> for another connection,
  \<open>Not all players have submitted assignments\<close> for the host with the counts unequal.
  For a room that has not started, it is started afterwards if and only if the three
  conditions hold.
\<close>

theorem handle_start_game_iff:
  "(can_start sid rc games \<longrightarrow>
      (\<exists>g. dict_get games rc = Some g
          \<and> handle_start_game sid rc games
              = (dict_set rc (g\<lparr>started := True\<rparr>) games,
                 [(To_room rc, Game_started ''Game has started! Guess who your Secret Santa is!'')])
          \<and> dict_get (fst (handle_start_game sid rc games)) rc = Some (g\<lparr>started := True\<rparr>)))
   \<and> (\<not> can_start sid rc games \<longrightarrow>
        fst (handle_start_game sid rc games) = games
      \<and> (\<exists>msg. snd (handle_start_game sid rc games) = [(To_requester, Error_event msg)]))
   \<and> (\<forall>g. dict_get games rc = Some g \<and> sid \<noteq> host_id g \<longrightarrow>
        handle_start_game sid rc games
          = (games, [(To_requester, Error_event ''Only host can start game'')]))
   \<and> (\<forall>g. dict_get games rc = Some g \<and> sid = host_id g
          \<and> length (assignments g) \<noteq> length (players g) \<longrightarrow>
        handle_start_game sid rc games
          = (games,
             [(To_requester, Error_event ''Not all players have submitted assignments'')]))
   \<and> (\<forall>g. dict_get games rc = Some g \<and> \<not> started g \<longrightarrow>
        ((\<exists>g'. dict_get (fst (handle_start_game sid rc games)) rc = Some g' \<and> started g')
           \<longleftrightarrow> can_start sid rc games))"
proof (cases "dict_get games rc")
  case None
  then show ?thesis
    by (simp add: handle_start_game_def can_start_def)
next
  case (Some g)
  show ?thesis
  proof (cases "sid = host_id g \<and> length (assignments g) = length (players g)")
    case True
    with Some show ?thesis
      by (simp add: handle_start_game_def can_start_def dict_get_set)
  next
    case False
    with Some show ?thesis
      by (auto simp: handle_start_game_def can_start_def)
  qed
qed

theorem handle_start_game_iff_witness:
  "\<not> can_start ''b'' ''ABC123'' [(''ABC123'', ready_game)]
   \<and> handle_start_game ''b'' ''ABC123'' [(''ABC123'', ready_game)]
       = ([(''ABC123'', ready_game)], [(To_requester, Error_event ''Only host can start game'')])
   \<and> \<not> can_start ''h'' ''ABC123'' [(''ABC123'', lobby_game)]
   \<and> handle_start_game ''h'' ''ABC123'' [(''ABC123'', lobby_game)]
       = ([(''ABC123'', lobby_game)],
          [(To_requester, Error_event ''Not all players have submitted assignments'')])
   \<and> can_start ''h'' ''ABC123'' [(''ABC123'', ready_game)]
   \<and> dict_get (fst (handle_start_game ''h'' ''ABC123'' [(''ABC123'', ready_game)])) ''ABC123''
       = Some (ready_game\<lparr>started := True\<rparr>)"
proof -
  have not_host: "dict_get [(''ABC123'', ready_game)] ''ABC123'' = Some ready_game
      \<and> ''b'' \<noteq> host_id ready_game"
    by (simp add: ready_game_def lobby_game_def)
  have incomplete: "dict_get [(''ABC123'', lobby_game)] ''ABC123'' = Some lobby_game
      \<and> ''h'' = host_id lobby_game
      \<and> length (assignments lobby_game) \<noteq> length (players lobby_game)"
    by (simp add: lobby_game_def)
  have ok: "can_start ''h'' ''ABC123'' [(''ABC123'', ready_game)]"
    by (simp add: can_start_def ready_game_def lobby_game_def)
  have no1: "\<not> can_start ''b'' ''ABC123'' [(''ABC123'', ready_game)]"
    by (simp add: can_start_def ready_game_def lobby_game_def)
  have no2: "\<not> can_start ''h'' ''ABC123'' [(''ABC123'', lobby_game)]"
    by (simp add: can_start_def lobby_game_def)
  from handle_start_game_iff[of "''b''" "''ABC123''" "[(''ABC123'', ready_game)]"] not_host
  have 1: "handle_start_game ''b'' ''ABC123'' [(''ABC123'', ready_game)]
       = ([(''ABC123'', ready_game)], [(To_requester, Error_event ''Only host can start game'')])"
    by blast
  from handle_start_game_iff[of "''h''" "''ABC123''" "[(''ABC123'', lobby_game)]"] incomplete
  have 2: "handle_start_game ''h'' ''ABC123'' [(''ABC123'', lobby_game)]
       = ([(''ABC123'', lobby_game)],
          [(To_requester, Error_event ''Not all players have submitted assignments'')])"
    by blast
  from handle_start_game_iff[of "''h''" "''ABC123''" "[(''ABC123'', ready_game)]"] ok
  have 3: "dict_get (fst (handle_start_game ''h'' ''ABC123'' [(''ABC123'', ready_game)])) ''ABC123''
       = Some (ready_game\<lparr>started := True\<rparr>)"
    by auto
  from 1 2 3 ok no1 no2 show ?thesis by blast
qed

section \<open>Joining a room\<close>

text \<open>
  Claim C6. In a room that exists (under the uppercased code) and has not started, a join
  under the name of a current player changes nothing and emits \<open>Name already taken\<close> to
  the requester only; a join under a name no current player has records the connection
  as a player of that name and sets the name's guess list to the empty list. Nothing
  else of the game changes, and a connection that was not yet a player makes the player
  count grow by one.
\<close>

theorem handle_join_game_duplicate_or_fresh:
  assumes "dict_get games (upper rc) = Some g" and "\<not> started g"
  shows "(nm \<in> set (player_names g) \<longrightarrow>
            handle_join_game sid now rc nm games
              = (games, [(To_requester, Error_event ''Name already taken'')]))
       \<and> (nm \<notin> set (player_names g) \<longrightarrow>
            (\<exists>g' out. handle_join_game sid now rc nm games = (dict_set (upper rc) g' games, out)
               \<and> dict_get (dict_set (upper rc) g' games) (upper rc) = Some g'
               \<and> dict_get (players g') sid = Some \<lparr>name = nm, joined_at = now\<rparr>
               \<and> nm \<in> set (player_names g')
               \<and> dict_get (guesses g') nm = Some []
               \<and> (\<not> dict_in sid (players g) \<longrightarrow> length (players g') = Suc (length (players g)))
               \<and> (\<forall>s. s \<noteq> sid \<longrightarrow> dict_get (players g') s = dict_get (players g) s)
               \<and> (\<forall>n. n \<noteq> nm \<longrightarrow> dict_get (guesses g') n = dict_get (guesses g) n)
               \<and> assignments g' = assignments g \<and> completed g' = completed g
               \<and> started g' = started g \<and> host_id g' = host_id g))"
proof (intro conjI impI)
  assume "nm \<in> set (player_names g)"
  with assms show "handle_join_game sid now rc nm games
      = (games, [(To_requester, Error_event ''Name already taken'')])"
    by (simp add: handle_join_game_def)
next
  assume fresh: "nm \<notin> set (player_names g)"
  let ?g' = "add_player g sid nm now"
  have run: "handle_join_game sid now rc nm games
      = (dict_set (upper rc) ?g' games,
         [(To_requester, Joined_game (upper rc) nm),
          (To_room (upper rc), Player_list_update (player_names ?g') (length (player_names ?g')))])"
    using assms fresh by (simp add: handle_join_game_def Let_def)
  have member: "dict_get (players ?g') sid = Some \<lparr>name = nm, joined_at = now\<rparr>"
    by (simp add: add_player_def dict_get_set)
  from dict_get_mem[OF member] have listed: "nm \<in> set (player_names ?g')"
    by (force simp: player_names_def)
  have "dict_get (dict_set (upper rc) ?g' games) (upper rc) = Some ?g'"
    by (simp add: dict_get_set)
  moreover have "dict_get (guesses ?g') nm = Some []"
    by (simp add: add_player_def dict_get_set)
  moreover have "\<not> dict_in sid (players g) \<longrightarrow> length (players ?g') = Suc (length (players g))"
    by (simp add: add_player_def length_dict_set)
  moreover have "\<forall>s. s \<noteq> sid \<longrightarrow> dict_get (players ?g') s = dict_get (players g) s"
    by (simp add: add_player_def dict_get_set)
  moreover have "\<forall>n. n \<noteq> nm \<longrightarrow> dict_get (guesses ?g') n = dict_get (guesses g) n"
    by (simp add: add_player_def dict_get_set)
  moreover have "assignments ?g' = assignments g \<and> completed ?g' = completed g
      \<and> started ?g' = started g \<and> host_id ?g' = host_id g"
    by (simp add: add_player_def)
  ultimately show "\<exists>g' out. handle_join_game sid now rc nm games = (dict_set (upper rc) g' games, out)
               \<and> dict_get (dict_set (upper rc) g' games) (upper rc) = Some g'
               \<and> dict_get (players g') sid = Some \<lparr>name = nm, joined_at = now\<rparr>
               \<and> nm \<in> set (player_names g')
               \<and> dict_get (guesses g') nm = Some []
               \<and> (\<not> dict_in sid (players g) \<longrightarrow> length (players g') = Suc (length (players g)))
               \<and> (\<forall>s. s \<noteq> sid \<longrightarrow> dict_get (players g') s = dict_get (players g) s)
               \<and> (\<forall>n. n \<noteq> nm \<longrightarrow> dict_get (guesses g') n = dict_get (guesses g) n)
               \<and> assignments g' = assignments g \<and> completed g' = completed g
               \<and> started g' = started g \<and> host_id g' = host_id g"
    using run member listed by blast
qed

theorem handle_join_game_duplicate_or_fresh_witness:
  "dict_get [(''ABC123'', solo_game)] (upper ''ABC123'') = Some solo_game
   \<and> \<not> started solo_game
   \<and> ''Alice'' \<in> set (player_names solo_game)
   \<and> handle_join_game ''b'' 2 ''ABC123'' ''Alice'' [(''ABC123'', solo_game)]
       = ([(''ABC123'', solo_game)], [(To_requester, Error_event ''Name already taken'')])
   \<and> ''Bob'' \<notin> set (player_names solo_game)
   \<and> (\<exists>g'. fst (handle_join_game ''b'' 2 ''ABC123'' ''Bob'' [(''ABC123'', solo_game)])
              = [(''ABC123'', g')]
          \<and> dict_get (players g') ''b'' = Some \<lparr>name = ''Bob'', joined_at = 2\<rparr>
          \<and> dict_get (guesses g') ''Bob'' = Some []
          \<and> length (players g') = 2)"
proof -
  have room: "dict_get [(''ABC123'', solo_game)] (upper ''ABC123'') = Some solo_game"
    by (simp add: upper_ABC123)
  have lobby: "\<not> started solo_game"
    by (simp add: solo_game_def)
  have dup: "''Alice'' \<in> set (player_names solo_game)"
    by (simp add: player_names_def solo_game_def)
  have fresh: "''Bob'' \<notin> set (player_names solo_game)"
    by (simp add: player_names_def solo_game_def)
  have new_sid: "\<not> dict_in ''b'' (players solo_game)"
    by (simp add: dict_in_def solo_game_def)
  have len: "length (players solo_game) = 1"
    by (simp add: solo_game_def)
  from handle_join_game_duplicate_or_fresh[OF room lobby, of "''Alice''" "''b''" 2] dup
  have 1: "handle_join_game ''b'' 2 ''ABC123'' ''Alice'' [(''ABC123'', solo_game)]
       = ([(''ABC123'', solo_game)], [(To_requester, Error_event ''Name already taken'')])"
    by blast
  from handle_join_game_duplicate_or_fresh[OF room lobby, of "''Bob''" "''b''" 2] fresh
  obtain g' out where g':
    "handle_join_game ''b'' 2 ''ABC123'' ''Bob'' [(''ABC123'', solo_game)]
       = (dict_set (upper ''ABC123'') g' [(''ABC123'', solo_game)], out)"
    "dict_get (players g') ''b'' = Some \<lparr>name = ''Bob'', joined_at = 2\<rparr>"
    "dict_get (guesses g') ''Bob'' = Some []"
    "\<not> dict_in ''b'' (players solo_game) \<longrightarrow> length (players g') = Suc (length (players solo_game))"
    by blast
  from g'(1) have "fst (handle_join_game ''b'' 2 ''ABC123'' ''Bob'' [(''ABC123'', solo_game)])
      = [(''ABC123'', g')]"
    by (simp add: upper_ABC123)
  moreover from g'(4) new_sid len have "length (players g') = 2" by simp
  ultimately show ?thesis using room lobby dup fresh 1 g'(2,3) by blast
qed

section \<open>Guessing\<close>

text \<open>
  Claim C8. In a started room, a guess under a name that is in \<open>completed\<close> changes
  nothing (no guess is appended, the completion entry stays as it is) and emits
  \<open>You already found your Santa!\<close> to the requester only.
\<close>

theorem handle_make_guess_already_completed:
  assumes "dict_get games rc = Some g" and "started g" and "dict_in p (completed g)"
  shows "handle_make_guess now rc p s games
           = Inr (games, [(To_requester, Error_event ''You already found your Santa!'')])"
  using assms by (simp add: handle_make_guess_def)

theorem handle_make_guess_already_completed_witness:
  "dict_get [(''ABC123'', done_game)] ''ABC123'' = Some done_game
   \<and> started done_game
   \<and> dict_in ''Bob'' (completed done_game)
   \<and> handle_make_guess 9 ''ABC123'' ''Bob'' ''Alice'' [(''ABC123'', done_game)]
       = Inr ([(''ABC123'', done_game)],
              [(To_requester, Error_event ''You already found your Santa!'')])"
proof -
  have room: "dict_get [(''ABC123'', done_game)] ''ABC123'' = Some done_game"
    by simp
  have active: "started done_game"
    by (simp add: done_game_def active_game_def)
  have finished: "dict_in ''Bob'' (completed done_game)"
    by (simp add: dict_in_def done_game_def)
  from handle_make_guess_already_completed[OF room active finished, of 9 "''Alice''"]
  show ?thesis using room active finished by blast
qed

text \<open>
  Claim C9. In a state the server can reach, where the room exists and is started and the
  name is neither in \<open>completed\<close> nor in \<open>guesses\<close> (the name never joined),
  \<open>handle_make_guess\<close> ends with the \<open>KeyError\<close> of \<open>self.guesses[player_name]\<close>: the
  handler checks the room and \<open>started\<close>, never that the name is a player. The run below
  reaches such a state.
\<close>

theorem handle_make_guess_KeyError:
  assumes "run evs [] = Some games"
    and "dict_get games rc = Some g" and "started g"
    and "\<not> dict_in p (completed g)" and "\<not> dict_in p (guesses g)"
  shows "handle_make_guess now rc p s games = Inl (KeyError p)"
  using assms(2-5) by (simp add: handle_make_guess_def make_guess_def dict_in_def)

lemma run_to_active:
  "run [Create_game ''h'' [''ABC123''],
        Join_game ''a'' 1 ''abc123'' ''Alice'',
        Join_game ''b'' 2 ''abc123'' ''Bob'',
        Submit_assignment ''ABC123'' ''Alice'' ''Bob'',
        Submit_assignment ''ABC123'' ''Bob'' ''Alice'',
        Start_game ''h'' ''ABC123'',
        Make_guess 5 ''ABC123'' ''Bob'' ''Carol'',
        Make_guess 6 ''ABC123'' ''Bob'' ''Dave''] []
     = Some [(''ABC123'', active_game)]"
  by (simp add: handle_create_game_def handle_join_game_def handle_submit_assignment_def
      handle_start_game_def handle_make_guess_def make_guess_def set_assignment_def
      add_player_def player_names_def Game_init_def dict_in_def upper_abc123 Let_def
      active_game_def ready_game_def lobby_game_def)

theorem handle_make_guess_KeyError_witness:
  "run [Create_game ''h'' [''ABC123''],
        Join_game ''a'' 1 ''abc123'' ''Alice'',
        Join_game ''b'' 2 ''abc123'' ''Bob'',
        Submit_assignment ''ABC123'' ''Alice'' ''Bob'',
        Submit_assignment ''ABC123'' ''Bob'' ''Alice'',
        Start_game ''h'' ''ABC123'',
        Make_guess 5 ''ABC123'' ''Bob'' ''Carol'',
        Make_guess 6 ''ABC123'' ''Bob'' ''Dave''] []
     = Some [(''ABC123'', active_game)]
   \<and> dict_get [(''ABC123'', active_game)] ''ABC123'' = Some active_game
   \<and> started active_game
   \<and> \<not> dict_in ''Eve'' (completed active_game)
   \<and> \<not> dict_in ''Eve'' (guesses active_game)
   \<and> handle_make_guess 7 ''ABC123'' ''Eve'' ''Alice'' [(''ABC123'', active_game)]
       = Inl (KeyError ''Eve'')"
proof -
  have room: "dict_get [(''ABC123'', active_game)] ''ABC123'' = Some active_game"
    by simp
  have active: "started active_game"
    by (simp add: active_game_def)
  have not_done: "\<not> dict_in ''Eve'' (completed active_game)"
    by (simp add: dict_in_def active_game_def ready_game_def lobby_game_def)
  have no_log: "\<not> dict_in ''Eve'' (guesses active_game)"
    by (simp add: dict_in_def active_game_def)
  from handle_make_guess_KeyError[OF run_to_active room active not_done no_log, of 7 "''Alice''"]
  show ?thesis using run_to_active room active not_done no_log by blast
qed

section \<open>Disconnecting\<close>

lemma remove_player_member:
  assumes "dict_get (players g) sid = Some p"
  shows "remove_player g sid =
           g\<lparr>players := dict_del sid (players g),
             guesses := dict_del (name p) (guesses g),
             assignments := dict_del (name p) (assignments g),
             completed := dict_del (name p) (completed g)\<rparr>"
  using assms by (simp add: remove_player_def Let_def dict_del_absent)

lemma find_room_Some:
  "find_room sid games = Some (rc, g, p) \<Longrightarrow>
     (rc, g) \<in> set games \<and> dict_get (players g) sid = Some p"
  by (induction games) (auto split: option.splits)

lemma find_room_lookup:
  "dict_ok games \<Longrightarrow> find_room sid games = Some (rc, g, p) \<Longrightarrow> dict_get games rc = Some g"
proof (induction games)
  case Nil
  then show ?case by simp
next
  case (Cons e games)
  obtain rc' g' where e: "e = (rc', g')" by (cases e)
  show ?case
  proof (cases "dict_get (players g') sid")
    case (Some p')
    with Cons.prems e show ?thesis by simp
  next
    case None
    with Cons.prems e have found: "find_room sid games = Some (rc, g, p)" by simp
    from find_room_Some[OF found] have "rc \<in> fst ` set games" by force
    moreover from Cons.prems(1) e have "rc' \<notin> fst ` set games" and "dict_ok games"
      by (simp_all add: dict_ok_def)
    ultimately have "rc' \<noteq> rc" by blast
    with Cons.IH[OF \<open>dict_ok games\<close> found] e show ?thesis by simp
  qed
qed

text \<open>What \<open>handle_disconnect\<close> does with the room its loop stops at.\<close>

lemma handle_disconnect_found:
  assumes "find_room sid games = Some (rc, g, p)" and "dict_ok (players g)"
  shows "(length (players g) = 1 \<longrightarrow>
            fst (handle_disconnect sid games) = dict_del rc games
          \<and> dict_get (fst (handle_disconnect sid games)) rc = None)
       \<and> (length (players g) \<noteq> 1 \<longrightarrow>
            fst (handle_disconnect sid games) = dict_set rc (remove_player g sid) games
          \<and> dict_get (fst (handle_disconnect sid games)) rc = Some (remove_player g sid))
       \<and> (players (remove_player g sid) = [] \<longleftrightarrow> length (players g) = 1)
       \<and> (dict_in rc (fst (handle_disconnect sid games))
            \<longleftrightarrow> players (remove_player g sid) \<noteq> [])
       \<and> \<not> dict_in sid (players (remove_player g sid))
       \<and> (\<forall>rc'. rc' \<noteq> rc \<longrightarrow>
             dict_get (fst (handle_disconnect sid games)) rc' = dict_get games rc')"
proof -
  from find_room_Some[OF assms(1)] have member: "dict_get (players g) sid = Some p"
    by simp
  let ?g' = "remove_player g sid"
  have players': "players ?g' = dict_del sid (players g)"
    by (simp add: remove_player_member[OF member])
  have last: "players ?g' = [] \<longleftrightarrow> length (players g) = 1"
    using dict_del_last[OF assms(2) member] players' by simp
  have gone: "\<not> dict_in sid (players ?g')"
    by (simp add: players' dict_in_def dict_get_del)
  show ?thesis
  proof (cases "length (players g) = 1")
    case True
    with last have "players ?g' = []" by simp
    then have "fst (handle_disconnect sid games) = dict_del rc games"
      using assms(1) by (simp add: handle_disconnect_def Let_def)
    with True last gone show ?thesis
      by (simp add: dict_get_del dict_in_def)
  next
    case False
    with last have "players ?g' \<noteq> []" by simp
    then have "fst (handle_disconnect sid games) = dict_set rc ?g' games"
      using assms(1) by (simp add: handle_disconnect_def Let_def)
    with False last gone show ?thesis
      by (simp add: dict_get_set dict_in_def)
  qed
qed

text \<open>The loop finds the first room, in registry order, that has the connection among
  its players, whenever some room has it.\<close>

lemma find_room_first:
  assumes "(rc0, g0) \<in> set games" and "dict_in sid (players g0)"
  shows "\<exists>i rc g p. find_room sid games = Some (rc, g, p)
           \<and> i < length games \<and> games ! i = (rc, g)
           \<and> dict_get (players g) sid = Some p
           \<and> (\<forall>j < i. \<not> dict_in sid (players (snd (games ! j))))"
  using assms
proof (induction games)
  case Nil
  then show ?case by simp
next
  case (Cons e games)
  obtain r h where e: "e = (r, h)" by (cases e)
  show ?case
  proof (cases "dict_get (players h) sid")
    case (Some p)
    with e have "find_room sid (e # games) = Some (r, h, p)
        \<and> 0 < length (e # games) \<and> (e # games) ! 0 = (r, h)
        \<and> dict_get (players h) sid = Some p
        \<and> (\<forall>j < 0. \<not> dict_in sid (players (snd ((e # games) ! j))))"
      by simp
    then show ?thesis by blast
  next
    case None
    with Cons.prems(2) have "g0 \<noteq> h"
      by (auto simp: dict_in_def)
    with Cons.prems(1) e have "(rc0, g0) \<in> set games" by simp
    from Cons.IH[OF this Cons.prems(2)] obtain i rc g p where
      found: "find_room sid games = Some (rc, g, p)" and i: "i < length games"
      and at: "games ! i = (rc, g)" and p: "dict_get (players g) sid = Some p"
      and before: "\<forall>j < i. \<not> dict_in sid (players (snd (games ! j)))"
      by blast
    have "\<forall>j < Suc i. \<not> dict_in sid (players (snd ((e # games) ! j)))"
    proof (intro allI impI)
      fix j assume j: "j < Suc i"
      show "\<not> dict_in sid (players (snd ((e # games) ! j)))"
      proof (cases j)
        case 0
        with None e show ?thesis by (simp add: dict_in_def)
      next
        case (Suc j')
        with j before show ?thesis by simp
      qed
    qed
    moreover from None e found have "find_room sid (e # games) = Some (rc, g, p)"
      by simp
    moreover from i at have "Suc i < length (e # games) \<and> (e # games) ! Suc i = (rc, g)"
      by simp
    ultimately show ?thesis using p by blast
  qed
qed

text \<open>
  Claim C7. Let the connection \<open>sid\<close> be a player of some room of the registry. Then
  \<open>handle_disconnect\<close> takes it out of the room \<open>rc\<close> that comes first in the registry
  among the rooms having \<open>sid\<close> as a player. If \<open>sid\<close> was the only player there, the
  entry of \<open>rc\<close> is deleted and a lookup of \<open>rc\<close> finds nothing; otherwise the room stays
  under \<open>rc\<close> with its other players. A room of the registry is gone afterwards if and
  only if it is \<open>rc\<close> and its \<open>players\<close> became empty. Every room other than \<open>rc\<close> is
  as before; a later room that also has \<open>sid\<close> as a player keeps it.
\<close>

theorem handle_disconnect_removes_empty_room:
  assumes "(rc0, g0) \<in> set games" and "dict_in sid (players g0)" and "players_ok games"
  shows "\<exists>i rc g p.
           i < length games \<and> games ! i = (rc, g)
         \<and> dict_get (players g) sid = Some p
         \<and> (\<forall>j < i. \<not> dict_in sid (players (snd (games ! j))))
         \<and> (length (players g) = 1 \<longrightarrow>
               fst (handle_disconnect sid games) = dict_del rc games
             \<and> dict_get (fst (handle_disconnect sid games)) rc = None)
         \<and> (length (players g) \<noteq> 1 \<longrightarrow>
               fst (handle_disconnect sid games) = dict_set rc (remove_player g sid) games
             \<and> dict_get (fst (handle_disconnect sid games)) rc = Some (remove_player g sid)
             \<and> players (remove_player g sid) \<noteq> [])
         \<and> (players (remove_player g sid) = [] \<longleftrightarrow> length (players g) = 1)
         \<and> \<not> dict_in sid (players (remove_player g sid))
         \<and> (\<forall>s. s \<noteq> sid \<longrightarrow>
               dict_get (players (remove_player g sid)) s = dict_get (players g) s)
         \<and> (\<forall>rc'. dict_in rc' games \<longrightarrow>
               (dict_in rc' (fst (handle_disconnect sid games))
                  \<longleftrightarrow> \<not> (rc' = rc \<and> players (remove_player g sid) = [])))
         \<and> (\<forall>rc'. rc' \<noteq> rc \<longrightarrow>
               dict_get (fst (handle_disconnect sid games)) rc' = dict_get games rc')"
proof -
  from find_room_first[OF assms(1,2)] obtain i rc g p where
    found: "find_room sid games = Some (rc, g, p)" and i: "i < length games"
    and at: "games ! i = (rc, g)" and p: "dict_get (players g) sid = Some p"
    and before: "\<forall>j < i. \<not> dict_in sid (players (snd (games ! j)))"
    by blast
  from i at have mem: "(rc, g) \<in> set games"
    by (metis nth_mem)
  with assms(3) have ok: "dict_ok (players g)"
    by (force simp: players_ok_def)
  from mem have present: "dict_in rc games"
    by (force simp: dict_in_keys)
  let ?games' = "fst (handle_disconnect sid games)"
  let ?g' = "remove_player g sid"
  note room = handle_disconnect_found[OF found ok]
  have others: "\<forall>s. s \<noteq> sid \<longrightarrow> dict_get (players ?g') s = dict_get (players g) s"
    by (simp add: remove_player_member[OF p] dict_get_del)
  have nonempty: "length (players g) \<noteq> 1 \<longrightarrow> players ?g' \<noteq> []"
    using room by blast
  have every: "\<forall>rc'. dict_in rc' games \<longrightarrow>
      (dict_in rc' ?games' \<longleftrightarrow> \<not> (rc' = rc \<and> players ?g' = []))"
  proof (intro allI impI)
    fix rc' assume in_before: "dict_in rc' games"
    show "dict_in rc' ?games' \<longleftrightarrow> \<not> (rc' = rc \<and> players ?g' = [])"
    proof (cases "rc' = rc")
      case True
      with room show ?thesis by blast
    next
      case False
      with room have "dict_get ?games' rc' = dict_get games rc'" by blast
      with in_before False show ?thesis by (simp add: dict_in_def)
    qed
  qed
  from i at p before room others nonempty every show ?thesis
    by blast
qed

theorem handle_disconnect_removes_empty_room_witness:
  "(''XYZ789'', carol_game)
     \<in> set [(''ABC123'', ready_game), (''DEF456'', tie_game), (''XYZ789'', carol_game)]
   \<and> dict_in ''c'' (players carol_game)
   \<and> players_ok [(''ABC123'', ready_game), (''DEF456'', tie_game), (''XYZ789'', carol_game)]
   \<and> fst (handle_disconnect ''c''
            [(''ABC123'', ready_game), (''DEF456'', tie_game), (''XYZ789'', carol_game)])
       = [(''ABC123'', ready_game), (''DEF456'', tie_game)]
   \<and> (''XYZ789'', solo_game) \<in> set [(''ABC123'', ready_game), (''XYZ789'', solo_game)]
   \<and> dict_in ''a'' (players solo_game)
   \<and> players_ok [(''ABC123'', ready_game), (''XYZ789'', solo_game)]
   \<and> dict_get (fst (handle_disconnect ''a'' [(''ABC123'', ready_game), (''XYZ789'', solo_game)]))
         ''ABC123''
       = Some (remove_player ready_game ''a'')
   \<and> dict_get (fst (handle_disconnect ''a'' [(''ABC123'', ready_game), (''XYZ789'', solo_game)]))
         ''XYZ789''
       = Some solo_game"
proof -
  let ?G3 = "[(''ABC123'', ready_game), (''DEF456'', tie_game), (''XYZ789'', carol_game)]"
  let ?G2 = "[(''ABC123'', ready_game), (''XYZ789'', solo_game)]"
  have m3: "(''XYZ789'', carol_game) \<in> set ?G3"
    by simp
  have in3: "dict_in ''c'' (players carol_game)"
    by (simp add: dict_in_def carol_game_def)
  have ok3: "players_ok ?G3"
    by (simp add: players_ok_def dict_ok_def carol_game_def tie_game_def ready_game_def
        lobby_game_def)
  have m2: "(''XYZ789'', solo_game) \<in> set ?G2"
    by simp
  have in2: "dict_in ''a'' (players solo_game)"
    by (simp add: dict_in_def solo_game_def)
  have ok2: "players_ok ?G2"
    by (simp add: players_ok_def dict_ok_def solo_game_def ready_game_def lobby_game_def)
  have third: "fst (handle_disconnect ''c'' ?G3) = [(''ABC123'', ready_game), (''DEF456'', tie_game)]"
  proof -
    from handle_disconnect_removes_empty_room[OF m3 in3 ok3] obtain i rc g p where
      i: "i < length ?G3" and at: "?G3 ! i = (rc, g)"
      and p: "dict_get (players g) ''c'' = Some p"
      and last: "length (players g) = 1 \<longrightarrow>
        fst (handle_disconnect ''c'' ?G3) = dict_del rc ?G3
        \<and> dict_get (fst (handle_disconnect ''c'' ?G3)) rc = None"
      by (elim exE conjE) (rule that, assumption+)
    have no0: "dict_get (players (snd (?G3 ! 0))) ''c'' = None"
      by (simp add: ready_game_def lobby_game_def)
    have no1: "dict_get (players (snd (?G3 ! Suc 0))) ''c'' = None"
      by (simp add: tie_game_def ready_game_def lobby_game_def)
    from at p have held: "dict_get (players (snd (?G3 ! i))) ''c'' = Some p"
      by simp
    from i have "i = 0 \<or> i = Suc 0 \<or> i = Suc (Suc 0)"
      by (simp add: less_Suc_eq)
    then have "i = Suc (Suc 0)"
    proof (elim disjE)
      assume "i = 0"
      with held no0 show ?thesis by simp
    next
      assume "i = Suc 0"
      with held no1 show ?thesis by simp
    next
      assume "i = Suc (Suc 0)"
      then show ?thesis .
    qed
    with at have room: "rc = ''XYZ789''" and game: "g = carol_game"
      by simp_all
    have "length (players carol_game) = 1"
      by (simp add: carol_game_def)
    with last room game have "fst (handle_disconnect ''c'' ?G3) = dict_del ''XYZ789'' ?G3"
      by simp
    then show ?thesis by simp
  qed
  have first: "dict_get (fst (handle_disconnect ''a'' ?G2)) ''ABC123''
        = Some (remove_player ready_game ''a'')
      \<and> dict_get (fst (handle_disconnect ''a'' ?G2)) ''XYZ789'' = Some solo_game"
  proof -
    from handle_disconnect_removes_empty_room[OF m2 in2 ok2] obtain i rc g p where
      at: "?G2 ! i = (rc, g)"
      and before: "\<forall>j < i. \<not> dict_in ''a'' (players (snd (?G2 ! j)))"
      and stays: "length (players g) \<noteq> 1 \<longrightarrow>
        fst (handle_disconnect ''a'' ?G2) = dict_set rc (remove_player g ''a'') ?G2
        \<and> dict_get (fst (handle_disconnect ''a'' ?G2)) rc = Some (remove_player g ''a'')
        \<and> players (remove_player g ''a'') \<noteq> []"
      and frame: "\<forall>rc'. rc' \<noteq> rc \<longrightarrow>
        dict_get (fst (handle_disconnect ''a'' ?G2)) rc' = dict_get ?G2 rc'"
      by (elim exE conjE) (rule that, assumption+)
    have holds0: "dict_in ''a'' (players (snd (?G2 ! 0)))"
      by (simp add: dict_in_def ready_game_def lobby_game_def)
    have "i = 0"
    proof (rule ccontr)
      assume "i \<noteq> 0"
      then have "0 < i" by simp
      from before[rule_format, OF this] holds0 show False by simp
    qed
    with at have room: "rc = ''ABC123''" and game: "g = ready_game"
      by simp_all
    have "length (players ready_game) \<noteq> 1"
      by (simp add: ready_game_def lobby_game_def)
    with stays room game
    have 1: "dict_get (fst (handle_disconnect ''a'' ?G2)) ''ABC123''
        = Some (remove_player ready_game ''a'')"
      by simp
    have "''XYZ789'' \<noteq> ''ABC123''" by simp
    with frame[rule_format, of "''XYZ789''"] room
    have "dict_get (fst (handle_disconnect ''a'' ?G2)) ''XYZ789'' = dict_get ?G2 ''XYZ789''"
      by simp
    then have 2: "dict_get (fst (handle_disconnect ''a'' ?G2)) ''XYZ789'' = Some solo_game"
      by simp
    from 1 2 show ?thesis by (rule conjI)
  qed
  from first have f1: "dict_get (fst (handle_disconnect ''a'' ?G2)) ''ABC123''
        = Some (remove_player ready_game ''a'')"
    by (rule conjunct1)
  from first have f2: "dict_get (fst (handle_disconnect ''a'' ?G2)) ''XYZ789'' = Some solo_game"
    by (rule conjunct2)
  show ?thesis
    by (intro conjI) (fact m3 in3 ok3 third m2 in2 ok2 f1 f2)+
qed

text \<open>
  Claim C4 as stated fails. Bob has a guess list, an assignment and a completion entry;
  after his connection \<open>b\<close> disconnects, the room is still there and all three entries
  are gone.
\<close>

theorem remove_player_keeps_history_counterexample:
  "run [Create_game ''h'' [''ABC123''],
        Join_game ''a'' 1 ''abc123'' ''Alice'',
        Join_game ''b'' 2 ''abc123'' ''Bob'',
        Submit_assignment ''ABC123'' ''Alice'' ''Bob'',
        Submit_assignment ''ABC123'' ''Bob'' ''Alice'',
        Start_game ''h'' ''ABC123'',
        Make_guess 5 ''ABC123'' ''Bob'' ''Carol'',
        Make_guess 6 ''ABC123'' ''Bob'' ''Dave'',
        Make_guess 7 ''ABC123'' ''Bob'' ''Alice''] []
     = Some [(''ABC123'', done_game)]
   \<and> dict_get (players done_game) ''b'' = Some \<lparr>name = ''Bob'', joined_at = 2\<rparr>
   \<and> dict_get (guesses done_game) ''Bob'' = Some [''Carol'', ''Dave'', ''Alice'']
   \<and> dict_get (assignments done_game) ''Bob'' = Some ''Alice''
   \<and> dict_get (completed done_game) ''Bob''
       = Some \<lparr>timestamp = 7, guess_count = 3, santa = ''Alice''\<rparr>
   \<and> fst (handle_disconnect ''b'' [(''ABC123'', done_game)])
       = [(''ABC123'', remove_player done_game ''b'')]
   \<and> dict_get (guesses (remove_player done_game ''b'')) ''Bob'' = None
   \<and> dict_get (assignments (remove_player done_game ''b'')) ''Bob'' = None
   \<and> dict_get (completed (remove_player done_game ''b'')) ''Bob'' = None"
  by (simp add: handler_defs upper_abc123
      done_game_def active_game_def ready_game_def lobby_game_def)

text \<open>
  Claim C4, amended. \<open>remove_player\<close> of a connection that is a player deletes the
  player's entry in \<open>players\<close> and the entries of \<open>guesses\<close>, \<open>assignments\<close> and
  \<open>completed\<close> under the player's name; the entries under every other name and
  connection, \<open>host_id\<close> and \<open>started\<close> are as before.
\<close>

theorem remove_player_purges_name:
  assumes "dict_get (players g) sid = Some p"
  shows "dict_get (players (remove_player g sid)) sid = None
       \<and> dict_get (guesses (remove_player g sid)) (name p) = None
       \<and> dict_get (assignments (remove_player g sid)) (name p) = None
       \<and> dict_get (completed (remove_player g sid)) (name p) = None
       \<and> (\<forall>n. n \<noteq> name p \<longrightarrow>
             dict_get (guesses (remove_player g sid)) n = dict_get (guesses g) n
           \<and> dict_get (assignments (remove_player g sid)) n = dict_get (assignments g) n
           \<and> dict_get (completed (remove_player g sid)) n = dict_get (completed g) n)
       \<and> (\<forall>s. s \<noteq> sid \<longrightarrow>
             dict_get (players (remove_player g sid)) s = dict_get (players g) s)
       \<and> host_id (remove_player g sid) = host_id g
       \<and> started (remove_player g sid) = started g"
  by (simp add: remove_player_member[OF assms] dict_get_del)

theorem remove_player_purges_name_witness:
  "dict_get (players done_game) ''b'' = Some \<lparr>name = ''Bob'', joined_at = 2\<rparr>
   \<and> dict_get (guesses (remove_player done_game ''b'')) ''Bob'' = None
   \<and> dict_get (completed (remove_player done_game ''b'')) ''Bob'' = None
   \<and> dict_get (guesses (remove_player done_game ''b'')) ''Alice''
       = dict_get (guesses done_game) ''Alice''"
proof -
  have member: "dict_get (players done_game) ''b'' = Some \<lparr>name = ''Bob'', joined_at = 2\<rparr>"
    by (simp add: done_game_def active_game_def ready_game_def lobby_game_def)
  have other: "''Alice'' \<noteq> name \<lparr>name = ''Bob'', joined_at = 2\<rparr>"
    by simp
  from remove_player_purges_name[OF member] other member show ?thesis
    by simp
qed

section \<open>The santa of a player\<close>

lemma actual_santa_first:
  "actual_santa d p = Some s \<longleftrightarrow>
     (\<exists>i < length d. d ! i = (s, p) \<and> (\<forall>j < i. snd (d ! j) \<noteq> p))"
proof (induction d)
  case Nil
  then show ?case by simp
next
  case (Cons e d)
  obtain k v where e: "e = (k, v)" by (cases e)
  let ?R = "\<lambda>xs. \<exists>i < length xs. xs ! i = (s, p) \<and> (\<forall>j < i. snd (xs ! j) \<noteq> p)"
  show ?case
  proof (cases "v = p")
    case True
    have "?R (e # d) \<longleftrightarrow> k = s"
    proof
      assume "?R (e # d)"
      then obtain i where i: "(e # d) ! i = (s, p)" "\<forall>j < i. snd ((e # d) ! j) \<noteq> p"
        by blast
      have "i = 0"
      proof (rule ccontr)
        assume "i \<noteq> 0"
        then have "0 < i" by simp
        with i(2) have "snd ((e # d) ! 0) \<noteq> p" by blast
        with True e show False by simp
      qed
      with i(1) e show "k = s" by simp
    next
      assume "k = s"
      with True e have "(e # d) ! 0 = (s, p) \<and> (\<forall>j < 0. snd ((e # d) ! j) \<noteq> p)" by simp
      then show "?R (e # d)"
        by (intro exI[of _ 0]) simp
    qed
    with True e show ?thesis by auto
  next
    case False
    have "?R (e # d) \<longleftrightarrow> ?R d"
    proof
      assume "?R (e # d)"
      then obtain i where i: "i < length (e # d)" "(e # d) ! i = (s, p)"
        "\<forall>j < i. snd ((e # d) ! j) \<noteq> p"
        by blast
      from i(2) False e obtain i' where i': "i = Suc i'" by (cases i) auto
      have "\<forall>j < i'. snd (d ! j) \<noteq> p"
      proof (intro allI impI)
        fix j assume "j < i'"
        then have "Suc j < i" using i' by simp
        with i(3) have "snd ((e # d) ! Suc j) \<noteq> p" by blast
        then show "snd (d ! j) \<noteq> p" by simp
      qed
      with i i' show "?R d"
        by (intro exI[of _ i']) simp
    next
      assume "?R d"
      then obtain i where i: "i < length d" "d ! i = (s, p)" "\<forall>j < i. snd (d ! j) \<noteq> p"
        by blast
      have "\<forall>j < Suc i. snd ((e # d) ! j) \<noteq> p"
      proof (intro allI impI)
        fix j assume j: "j < Suc i"
        show "snd ((e # d) ! j) \<noteq> p"
        proof (cases j)
          case 0
          with False e show ?thesis by simp
        next
          case (Suc j')
          with j i(3) show ?thesis by simp
        qed
      qed
      with i show "?R (e # d)"
        by (intro exI[of _ "Suc i"]) simp
    qed
    with False e Cons.IH show ?thesis by simp
  qed
qed

text \<open>
  Claim C1 as stated fails. Alice and Bob both submitted Carol as their recipient. Carol
  guesses Bob: the entry with key Bob has value Carol, yet \<open>make_guess\<close> returns
  \<open>False\<close>, because the loop stopped at Alice's entry.
\<close>

theorem make_guess_some_entry_counterexample:
  "run [Create_game ''h'' [''ABC123''],
        Join_game ''a'' 1 ''abc123'' ''Alice'',
        Join_game ''b'' 2 ''abc123'' ''Bob'',
        Join_game ''c'' 3 ''abc123'' ''Carol'',
        Submit_assignment ''ABC123'' ''Alice'' ''Carol'',
        Submit_assignment ''ABC123'' ''Bob'' ''Carol'',
        Submit_assignment ''ABC123'' ''Carol'' ''Alice'',
        Start_game ''h'' ''ABC123''] []
     = Some [(''ABC123'', two_santas_game)]
   \<and> dict_get (guesses two_santas_game) ''Carol'' = Some []
   \<and> (''Bob'', ''Carol'') \<in> set (assignments two_santas_game)
   \<and> make_guess two_santas_game ''Carol'' ''Bob'' 9
       = Inr (False,
              two_santas_game\<lparr>guesses := [(''Alice'', []), (''Bob'', []), (''Carol'', [''Bob''])]\<rparr>)"
  by (simp add: handler_defs upper_abc123 two_santas_game_def)

text \<open>
  Claim C1, amended. For a name \<open>p\<close> with a guess list, \<open>make_guess\<close> appends the guess
  \<open>s\<close> to that list and returns \<open>True\<close> if and only if the first entry of
  \<open>assignments\<close>, in insertion order, whose value is \<open>p\<close> has the key \<open>s\<close>. When it
  returns \<open>True\<close>, the completion entry of \<open>p\<close> has the length of the list after the
  append as its guess count, \<open>s\<close> as its santa and the clock value as its time stamp;
  when it returns \<open>False\<close>, \<open>completed\<close> is unchanged.
\<close>

theorem make_guess_first_entry:
  assumes "dict_get (guesses g) p = Some log"
  shows "\<exists>b g'. make_guess g p s now = Inr (b, g')
       \<and> (b \<longleftrightarrow> (\<exists>i < length (assignments g).
                     assignments g ! i = (s, p) \<and> (\<forall>j < i. snd (assignments g ! j) \<noteq> p)))
       \<and> dict_get (guesses g') p = Some (log @ [s])
       \<and> (\<forall>q. q \<noteq> p \<longrightarrow> dict_get (guesses g') q = dict_get (guesses g) q)
       \<and> (b \<longrightarrow> dict_get (completed g') p
                   = Some \<lparr>timestamp = now, guess_count = length (log @ [s]), santa = s\<rparr>)
       \<and> (\<not> b \<longrightarrow> completed g' = completed g)
       \<and> players g' = players g \<and> assignments g' = assignments g
       \<and> started g' = started g \<and> host_id g' = host_id g"
proof (cases "actual_santa (assignments g) p = Some s")
  case True
  let ?g' = "g\<lparr>guesses := dict_set p (log @ [s]) (guesses g),
                completed := dict_set p \<lparr>timestamp = now, guess_count = length (log @ [s]),
                                         santa = s\<rparr> (completed g)\<rparr>"
  from assms True have "make_guess g p s now = Inr (True, ?g')"
    by (simp add: make_guess_def Let_def)
  moreover from True have "\<exists>i < length (assignments g).
      assignments g ! i = (s, p) \<and> (\<forall>j < i. snd (assignments g ! j) \<noteq> p)"
    by (simp add: actual_santa_first)
  moreover have "dict_get (guesses ?g') p = Some (log @ [s])
      \<and> (\<forall>q. q \<noteq> p \<longrightarrow> dict_get (guesses ?g') q = dict_get (guesses g) q)
      \<and> dict_get (completed ?g') p
          = Some \<lparr>timestamp = now, guess_count = length (log @ [s]), santa = s\<rparr>
      \<and> players ?g' = players g \<and> assignments ?g' = assignments g
      \<and> started ?g' = started g \<and> host_id ?g' = host_id g"
    by (simp add: dict_get_set)
  ultimately show ?thesis by blast
next
  case False
  let ?g' = "g\<lparr>guesses := dict_set p (log @ [s]) (guesses g)\<rparr>"
  from assms False have "make_guess g p s now = Inr (False, ?g')"
    by (simp add: make_guess_def Let_def)
  moreover from False have "\<not> (\<exists>i < length (assignments g).
      assignments g ! i = (s, p) \<and> (\<forall>j < i. snd (assignments g ! j) \<noteq> p))"
    by (simp add: actual_santa_first)
  moreover have "dict_get (guesses ?g') p = Some (log @ [s])
      \<and> (\<forall>q. q \<noteq> p \<longrightarrow> dict_get (guesses ?g') q = dict_get (guesses g) q)
      \<and> completed ?g' = completed g
      \<and> players ?g' = players g \<and> assignments ?g' = assignments g
      \<and> started ?g' = started g \<and> host_id ?g' = host_id g"
    by (simp add: dict_get_set)
  ultimately show ?thesis by blast
qed

theorem make_guess_first_entry_witness:
  "dict_get (guesses active_game) ''Bob'' = Some [''Carol'', ''Dave'']
   \<and> (\<exists>g'. make_guess active_game ''Bob'' ''Alice'' 7 = Inr (True, g')
          \<and> dict_get (guesses g') ''Bob'' = Some [''Carol'', ''Dave'', ''Alice'']
          \<and> dict_get (completed g') ''Bob''
              = Some \<lparr>timestamp = 7, guess_count = 3, santa = ''Alice''\<rparr>)"
proof -
  have log: "dict_get (guesses active_game) ''Bob'' = Some [''Carol'', ''Dave'']"
    by (simp add: active_game_def)
  have "assignments active_game ! 0 = (''Alice'', ''Bob'')
      \<and> (\<forall>j < 0. snd (assignments active_game ! j) \<noteq> ''Bob'')"
    by (simp add: active_game_def ready_game_def lobby_game_def)
  moreover have "0 < length (assignments active_game)"
    by (simp add: active_game_def ready_game_def lobby_game_def)
  ultimately have first: "\<exists>i < length (assignments active_game).
      assignments active_game ! i = (''Alice'', ''Bob'')
      \<and> (\<forall>j < i. snd (assignments active_game ! j) \<noteq> ''Bob'')"
    by blast
  from make_guess_first_entry[OF log, of "''Alice''" 7] first
  obtain g' where "make_guess active_game ''Bob'' ''Alice'' 7 = Inr (True, g')"
    "dict_get (guesses g') ''Bob'' = Some ([''Carol'', ''Dave''] @ [''Alice''])"
    "dict_get (completed g') ''Bob''
       = Some \<lparr>timestamp = 7, guess_count = length ([''Carol'', ''Dave''] @ [''Alice'']),
               santa = ''Alice''\<rparr>"
    by auto
  with log show ?thesis by simp
qed

section \<open>The leaderboard\<close>

text \<open>
  Claim C5 as stated fails. Alice and Bob completed with the same guess count and the
  same time stamp; their rows have the ranks 1 and 2, not the same rank.
\<close>

theorem get_leaderboard_tie_counterexample:
  "run [Create_game ''h'' [''ABC123''],
        Join_game ''a'' 1 ''abc123'' ''Alice'',
        Join_game ''b'' 2 ''abc123'' ''Bob'',
        Submit_assignment ''ABC123'' ''Alice'' ''Bob'',
        Submit_assignment ''ABC123'' ''Bob'' ''Alice'',
        Start_game ''h'' ''ABC123'',
        Make_guess 5 ''ABC123'' ''Alice'' ''Bob'',
        Make_guess 5 ''ABC123'' ''Bob'' ''Alice''] []
     = Some [(''ABC123'', tie_game)]
   \<and> completed tie_game
     = [(''Alice'', \<lparr>timestamp = 5, guess_count = 1, santa = ''Bob''\<rparr>),
        (''Bob'', \<lparr>timestamp = 5, guess_count = 1, santa = ''Alice''\<rparr>)]
   \<and> get_leaderboard tie_game
     = [\<lparr>rank = 1, player = ''Alice'', guesses_row = 1, santa_row = ''Bob''\<rparr>,
        \<lparr>rank = 2, player = ''Bob'', guesses_row = 1, santa_row = ''Alice''\<rparr>]"
  by (simp add: handler_defs upper_abc123 get_leaderboard_def sorted_completed_def
      sort_key_of_def tie_game_def ready_game_def lobby_game_def enumerate_eq_zip)

text \<open>
  Claim C5, amended. \<open>get_leaderboard\<close> returns one row for each completion, in the
  order of \<open>sorted_completed\<close>: a rearrangement of the completions in which an earlier
  row has a smaller guess count than a later one, or the same guess count and a time stamp
  that is not later. The row at position \<open>i\<close>, counted from 0, has rank \<open>i + 1\<close>, so the
  ranks are 1, 2, ... without gaps or repeats. Completions with the same guess count and
  the same time stamp stay in the order of their insertion into \<open>completed\<close>, and so
  get different ranks.
\<close>

theorem get_leaderboard_positions:
  "length (get_leaderboard g) = length (completed g)
   \<and> mset (sorted_completed g) = mset (completed g)
   \<and> (\<forall>i < length (completed g).
        get_leaderboard g ! i
          = \<lparr>rank = i + 1, player = fst (sorted_completed g ! i),
             guesses_row = guess_count (snd (sorted_completed g ! i)),
             santa_row = santa (snd (sorted_completed g ! i))\<rparr>)
   \<and> (\<forall>i j. i < j \<and> j < length (completed g) \<longrightarrow>
        guess_count (snd (sorted_completed g ! i)) < guess_count (snd (sorted_completed g ! j))
        \<or> (guess_count (snd (sorted_completed g ! i)) = guess_count (snd (sorted_completed g ! j))
           \<and> timestamp (snd (sorted_completed g ! i)) \<le> timestamp (snd (sorted_completed g ! j))))
   \<and> (\<forall>k. filter (\<lambda>x. sort_key_of x = k) (sorted_completed g)
            = filter (\<lambda>x. sort_key_of x = k) (completed g))"
proof (intro conjI allI impI)
  show "length (get_leaderboard g) = length (completed g)"
    by (simp add: get_leaderboard_def sorted_completed_def)
next
  show "mset (sorted_completed g) = mset (completed g)"
    by (simp add: sorted_completed_def)
next
  fix i assume "i < length (completed g)"
  then have i: "i < length (sorted_completed g)"
    by (simp add: sorted_completed_def)
  then have "enumerate 0 (sorted_completed g) ! i = (i, sorted_completed g ! i)"
    by (simp add: nth_enumerate_eq)
  with i show "get_leaderboard g ! i
      = \<lparr>rank = i + 1, player = fst (sorted_completed g ! i),
         guesses_row = guess_count (snd (sorted_completed g ! i)),
         santa_row = santa (snd (sorted_completed g ! i))\<rparr>"
    by (simp add: get_leaderboard_def case_prod_beta)
next
  fix i j assume ij: "i < j \<and> j < length (completed g)"
  have "sorted (map sort_key_of (sorted_completed g))"
    by (simp add: sorted_completed_def)
  moreover from ij have "i \<le> j" and "j < length (map sort_key_of (sorted_completed g))"
    by (simp_all add: sorted_completed_def)
  ultimately have "map sort_key_of (sorted_completed g) ! i
      \<le> map sort_key_of (sorted_completed g) ! j"
    by (rule sorted_nth_mono)
  with ij show "guess_count (snd (sorted_completed g ! i))
        < guess_count (snd (sorted_completed g ! j))
      \<or> (guess_count (snd (sorted_completed g ! i)) = guess_count (snd (sorted_completed g ! j))
         \<and> timestamp (snd (sorted_completed g ! i)) \<le> timestamp (snd (sorted_completed g ! j)))"
    by (auto simp: sorted_completed_def sort_key_of_def less_eq_prod_def)
next
  fix k
  show "filter (\<lambda>x. sort_key_of x = k) (sorted_completed g)
      = filter (\<lambda>x. sort_key_of x = k) (completed g)"
    unfolding sorted_completed_def by (rule sort_key_stable)
qed

lemma sorted_completed_ranked_game:
  "sorted_completed ranked_game
     = [(''Bob'', \<lparr>timestamp = 7, guess_count = 1, santa = ''Alice''\<rparr>),
        (''Alice'', \<lparr>timestamp = 9, guess_count = 2, santa = ''Bob''\<rparr>)]"
  by (simp add: sorted_completed_def sort_key_of_def ranked_game_def)

theorem get_leaderboard_positions_witness:
  "(1::nat) < length (completed ranked_game)
   \<and> get_leaderboard ranked_game ! 1
       = \<lparr>rank = 2, player = ''Alice'', guesses_row = 2, santa_row = ''Bob''\<rparr>
   \<and> (0::nat) < 1
   \<and> guess_count (snd (sorted_completed ranked_game ! 0))
       < guess_count (snd (sorted_completed ranked_game ! 1))"
proof -
  have len: "(1::nat) < length (completed ranked_game)"
    by (simp add: ranked_game_def)
  from get_leaderboard_positions[of ranked_game] len
  have "get_leaderboard ranked_game ! 1
      = \<lparr>rank = 1 + 1, player = fst (sorted_completed ranked_game ! 1),
         guesses_row = guess_count (snd (sorted_completed ranked_game ! 1)),
         santa_row = santa (snd (sorted_completed ranked_game ! 1))\<rparr>"
    by blast
  with len show ?thesis
    by (simp add: sorted_completed_ranked_game)
qed

section \<open>Room codes in inbound events\<close>

text \<open>
  Claim C3. The room \<open>ABC123\<close> exists and the event names it as \<open>abc123\<close>.
  \<open>handle_join_game\<close> uppercases the code and finds the room. \<open>handle_submit_assignment\<close>,
  \<open>handle_start_game\<close>, \<open>handle_make_guess\<close> and \<open>handle_get_game_state\<close> look the code
  up as it came and answer \<open>Game not found\<close>.
\<close>

theorem room_code_lowercase_lookup:
  "fst (handle_join_game ''c'' 3 ''abc123'' ''Carol'' [(''ABC123'', lobby_game)])
     = [(''ABC123'', add_player lobby_game ''c'' ''Carol'' 3)]
   \<and> handle_submit_assignment ''abc123'' ''Bob'' ''Alice'' [(''ABC123'', lobby_game)]
       = ([(''ABC123'', lobby_game)], [(To_requester, Error_event ''Game not found'')])
   \<and> handle_start_game ''h'' ''abc123'' [(''ABC123'', ready_game)]
       = ([(''ABC123'', ready_game)], [(To_requester, Error_event ''Game not found'')])
   \<and> handle_make_guess 7 ''abc123'' ''Bob'' ''Alice'' [(''ABC123'', active_game)]
       = Inr ([(''ABC123'', active_game)], [(To_requester, Error_event ''Game not found'')])
   \<and> handle_get_game_state ''abc123'' [(''ABC123'', active_game)]
       = ([(''ABC123'', active_game)], [(To_requester, Error_event ''Game not found'')])"
  by (simp add: handle_join_game_def handle_submit_assignment_def handle_start_game_def
      handle_make_guess_def handle_get_game_state_def upper_abc123 player_names_def
      lobby_game_def Let_def)

section \<open>Reachable registries\<close>

text \<open>In every registry a run of events reaches from the empty one, the \<open>players\<close> of
  every room have distinct keys: the condition \<open>players_ok\<close> of the theorem on
  \<open>handle_disconnect\<close> holds there.\<close>

lemma set_dict_set: "set (dict_set k v d) \<subseteq> insert (k, v) (set d)"
  by (induction d) (auto split: if_splits)

lemma set_dict_del: "set (dict_del k d) \<subseteq> set d"
  by (induction d) (auto split: if_splits)

lemma players_ok_set:
  assumes "players_ok games" and "dict_ok (players g)"
  shows "players_ok (dict_set rc g games)"
  unfolding players_ok_def
proof
  fix e assume "e \<in> set (dict_set rc g games)"
  with set_dict_set[of rc g games] have "e = (rc, g) \<or> e \<in> set games" by blast
  with assms show "dict_ok (players (snd e))"
    by (auto simp: players_ok_def)
qed

lemma players_ok_del: "players_ok games \<Longrightarrow> players_ok (dict_del rc games)"
  using set_dict_del[of rc games] by (auto simp: players_ok_def)

lemma players_ok_get: "players_ok games \<Longrightarrow> dict_get games rc = Some g \<Longrightarrow> dict_ok (players g)"
  using dict_get_mem[of games rc g] by (force simp: players_ok_def)

lemma players_ok_create:
  "players_ok games \<Longrightarrow> handle_create_game sid draws games = Some r \<Longrightarrow> players_ok (fst r)"
  by (auto simp: handle_create_game_def Game_init_def dict_ok_def
      intro!: players_ok_set split: option.splits)

lemma players_ok_join:
  "players_ok games \<Longrightarrow> players_ok (fst (handle_join_game sid now rc nm games))"
  by (auto simp: handle_join_game_def Let_def add_player_def
      intro!: players_ok_set dict_ok_set dest: players_ok_get split: option.splits)

lemma players_ok_submit:
  "players_ok games \<Longrightarrow> players_ok (fst (handle_submit_assignment rc nm got games))"
  by (auto simp: handle_submit_assignment_def Let_def set_assignment_def
      intro!: players_ok_set dest: players_ok_get split: option.splits)

lemma players_ok_start:
  "players_ok games \<Longrightarrow> players_ok (fst (handle_start_game sid rc games))"
  by (auto simp: handle_start_game_def
      intro!: players_ok_set dest: players_ok_get split: option.splits)

lemma make_guess_players: "make_guess g p s now = Inr (b, g') \<Longrightarrow> players g' = players g"
  by (auto simp: make_guess_def Let_def split: option.splits if_splits)

lemma players_ok_guess:
  assumes "players_ok games" and "handle_make_guess now rc p s games = Inr r"
  shows "players_ok (fst r)"
proof (cases "dict_get games rc")
  case None
  with assms show ?thesis by (auto simp: handle_make_guess_def)
next
  case (Some g)
  show ?thesis
  proof (cases "\<not> started g \<or> dict_in p (completed g)")
    case True
    with assms Some show ?thesis by (auto simp: handle_make_guess_def split: if_splits)
  next
    case False
    with assms(2) Some obtain b g' where guess: "make_guess g p s now = Inr (b, g')"
      and r: "fst r = dict_set rc g' games"
      by (auto simp: handle_make_guess_def split: sum.splits)
    from players_ok_get[OF assms(1) Some] make_guess_players[OF guess]
    have "dict_ok (players g')" by simp
    with assms(1) r show ?thesis by (simp add: players_ok_set)
  qed
qed

lemma players_ok_disconnect:
  assumes "players_ok games"
  shows "players_ok (fst (handle_disconnect sid games))"
proof (cases "find_room sid games")
  case None
  with assms show ?thesis by (simp add: handle_disconnect_def)
next
  case (Some found)
  obtain rc g p where found: "found = (rc, g, p)" by (cases found)
  from find_room_Some[of sid games rc g p] Some found
  have mem: "(rc, g) \<in> set games" and p: "dict_get (players g) sid = Some p"
    by simp_all
  from mem assms have "dict_ok (players g)"
    by (force simp: players_ok_def)
  then have "dict_ok (players (remove_player g sid))"
    by (simp add: remove_player_member[OF p] dict_ok_del)
  with assms Some found show ?thesis
    by (simp add: handle_disconnect_def Let_def players_ok_set players_ok_del)
qed

lemma step_players_ok: "players_ok games \<Longrightarrow> step ev games = Some games' \<Longrightarrow> players_ok games'"
proof (cases ev)
  case (Create_game sid draws)
  assume "players_ok games" and "step ev games = Some games'"
  with Create_game show ?thesis
    by (auto dest: players_ok_create)
next
  case (Make_guess now rc p s)
  assume "players_ok games" and "step ev games = Some games'"
  with Make_guess show ?thesis
    by (auto dest: players_ok_guess split: sum.splits)
qed (auto simp: players_ok_join players_ok_submit players_ok_start players_ok_disconnect
      handle_get_game_state_def split: option.splits)

lemma run_players_ok: "players_ok games \<Longrightarrow> run evs games = Some games' \<Longrightarrow> players_ok games'"
proof (induction evs arbitrary: games)
  case Nil
  then show ?case by simp
next
  case (Cons ev evs)
  from Cons.prems(2) obtain mid where mid: "step ev games = Some mid" "run evs mid = Some games'"
    by (auto split: option.splits)
  from step_players_ok[OF Cons.prems(1) mid(1)] have "players_ok mid" .
  from Cons.IH[OF this mid(2)] show ?case .
qed

lemma reachable_registry_ok: "run evs [] = Some games \<Longrightarrow> players_ok games"
  using run_players_ok[of "[]" evs games] by (simp add: players_ok_def)

lemma reachable_players_ok:
  assumes "run evs [] = Some games" and "find_room sid games = Some (rc, g, p)"
  shows "dict_ok (players g)"
proof -
  have "players_ok []" by (simp add: players_ok_def)
  from run_players_ok[OF this assms(1)] have "players_ok games" .
  moreover from find_room_Some[OF assms(2)] have "(rc, g) \<in> set games" by simp
  ultimately show ?thesis by (force simp: players_ok_def)
qed

end
